theory Spec2Isabelle
  imports Main "HOL-Library.AList"
begin

section \<open>Strings and errors\<close>

text \<open>
  Python strings are modelled as \<open>string\<close> holding the UTF-8 bytes of the text. The
  source only compares strings for equality and tests for substrings; both agree on
  the UTF-8 encoding and on the code points. The literals of the source that are not
  ASCII are written out byte by byte.
\<close>

definition luwei :: string where
  \<comment> \<open>the reserved author identifier of \<open>get_thread_page\<close>\<close>
  "luwei = [CHR 0xE8, CHR 0x8A, CHR 0xA6, CHR 0xE8, CHR 0x8B, CHR 0x87]"

definition anonymous_name :: string where
  \<comment> \<open>the none mark of \<open>Post.name\<close>\<close>
  "anonymous_name = [CHR 0xE6, CHR 0x97, CHR 0xA0, CHR 0xE5, CHR 0x90, CHR 0x8D,
     CHR 0xE6, CHR 0xB0, CHR 0x8F]"

definition untitled :: string where
  \<comment> \<open>the none mark of \<open>Post.title\<close>\<close>
  "untitled = [CHR 0xE6, CHR 0x97, CHR 0xA0, CHR 0xE6, CHR 0xA0, CHR 0x87,
     CHR 0xE9, CHR 0xA2, CHR 0x98]"

definition thread_not_exists :: string where
  \<comment> \<open>the payload the server sends for a thread that does not exist\<close>
  "thread_not_exists = [CHR 0xE8, CHR 0xAF, CHR 0xA5, CHR 0xE4, CHR 0xB8, CHR 0xBB,
     CHR 0xE9, CHR 0xA2, CHR 0x98, CHR 0xE4, CHR 0xB8, CHR 0x8D, CHR 0xE5, CHR 0xAD,
     CHR 0x98, CHR 0xE5, CHR 0x9C, CHR 0xA8]"

text \<open>
  The exceptions of \<open>exceptions.py\<close> that the two source files raise, the Python
  built-in errors their operations can raise, and the failures of the transport. An
  exception that leaves a function is the \<open>Inl\<close> of its result.
\<close>

datatype error =
    ShouldNotReachException
  | RequiresLoginException
  | NoPermissionException
  | ResourceNotExistsException
  | GatekeptException string "int option" "int option"
  | UnknownResponseException string
  | ReplyException string "string option"
  | KeyError string
  | TypeError
  | TransportError string
  | MalformedResponse string
  | RetryExhausted string nat "error option"

section \<open>Request options\<close>

text \<open>
  \<open>BaseClient\<close> and \<open>RequestOptions\<close> are not among the source files. The record
  holds what the client reads through \<open>get_login_policy\<close>, \<open>has_cookie\<close>,
  \<open>get_max_attempts\<close> and \<open>_get_option_value\<close>: the policy and the credential
  as resolved values, the two gatekeeper page numbers as optional entries whose
  default is given at the place of use.
\<close>

record request_options =
  login_policy :: string
  has_cookie :: bool
  max_attempts :: int
  thread_gatekeeper_page_number :: "int option"
  board_gatekeeper_page_number :: "int option"

definition get_option_value :: "'a option \<Rightarrow> 'a \<Rightarrow> 'a" where
  \<comment> \<open>Modelled from the spec: \<open>BaseClient._get_option_value\<close>, an option with a default.\<close>
  "get_option_value entry dflt = (case entry of None \<Rightarrow> dflt | Some v \<Rightarrow> v)"

definition get_thread_gatekeeper_page_number :: "request_options \<Rightarrow> int" where
  "get_thread_gatekeeper_page_number options =
     get_option_value (thread_gatekeeper_page_number options) 100"

definition get_board_gatekeeper_page_number :: "request_options \<Rightarrow> int" where
  "get_board_gatekeeper_page_number options =
     get_option_value (board_gatekeeper_page_number options) 100"

section \<open>Login gatekeeper\<close>

definition page_requires_login :: "int \<Rightarrow> int \<Rightarrow> request_options \<Rightarrow> error + bool" where
  "page_requires_login page gate_keeper options =
     (if login_policy options = ''enforce'' then Inr True
      else if login_policy options = ''when_has_cookie''
        then Inr (has_cookie options \<or> page > gate_keeper)
      else if login_policy options \<in> set [''always_no'', ''when_required'']
        then Inr (page > gate_keeper)
      else Inl ShouldNotReachException)"

definition thread_page_requires_login :: "int \<Rightarrow> request_options \<Rightarrow> error + bool" where
  "thread_page_requires_login page options =
     page_requires_login page (get_thread_gatekeeper_page_number options) options"

definition board_page_requires_login :: "int \<Rightarrow> request_options \<Rightarrow> error + bool" where
  "board_page_requires_login page options =
     (let gk_pn = get_board_gatekeeper_page_number options
      in if page > gk_pn
         then Inl (GatekeptException ''check_if_board_page_requires_login'' None None)
         else page_requires_login page gk_pn options)"

section \<open>Raw records\<close>

text \<open>
  The values of a decoded payload, as Python holds them. A raw record is Python's
  ordered dictionary with string keys: an association list, where assigning to a key
  that is present keeps its position and assigning to a new key appends it
  (\<open>AList.update\<close>), and \<open>pop\<close> removes the key (\<open>AList.delete\<close>). \<open>PMapObject\<close>
  is the iterator object that Python's \<open>map\<close> returns; it is no JSON value.
\<close>

datatype pyval =
    PNone
  | PBool bool
  | PInt int
  | PStr string
  | PList "pyval list"
  | PDict "(string \<times> pyval) list"
  | PMapObject

type_synonym raw_record = "(string \<times> pyval) list"

definition subscript :: "raw_record \<Rightarrow> string \<Rightarrow> error + pyval" where
  \<comment> \<open>\<open>record[key]\<close>, which raises KeyError on a key that is missing\<close>
  "subscript data key = (case map_of data key of None \<Rightarrow> Inl (KeyError key) | Some v \<Rightarrow> Inr v)"

definition is_continuation :: "char \<Rightarrow> bool" where
  \<comment> \<open>a byte \<open>10xxxxxx\<close>, which continues a UTF-8 sequence\<close>
  "is_continuation c = (128 \<le> (of_char c :: nat) \<and> (of_char c :: nat) < 192)"

function characters :: "string \<Rightarrow> string list" where
  \<comment> \<open>the characters of a Python string, each one a string of its own\<close>
  "characters [] = []"
| "characters (c # cs) =
     (c # takeWhile is_continuation cs) # characters (dropWhile is_continuation cs)"
  by pat_completeness auto
termination
  by (relation "measure length") (auto simp: length_dropWhile_le less_Suc_eq_le)

definition py_iter :: "pyval \<Rightarrow> error + pyval list" where
  \<comment> \<open>the items that iterating a value yields; TypeError when it is not iterable\<close>
  "py_iter v =
     (case v of
        PList xs \<Rightarrow> Inr xs
      | PDict kvs \<Rightarrow> Inr (map (\<lambda>kv. PStr (fst kv)) kvs)
      | PStr s \<Rightarrow> Inr (map PStr (characters s))
      | _ \<Rightarrow> Inl TypeError)"

fun serializable :: "pyval \<Rightarrow> bool" where
  "serializable PMapObject = False"
| "serializable (PList xs) = list_all serializable xs"
| "serializable (PDict kvs) = list_all (\<lambda>kv. serializable (snd kv)) kvs"
| "serializable _ = True"

definition json_dumps :: "(pyval \<Rightarrow> string) \<Rightarrow> pyval \<Rightarrow> error + string" where
  \<comment> \<open>\<open>json.dumps(v, indent=2, ensure_ascii=False)\<close> of the standard library: the text
      \<open>encode v\<close> of a JSON value, TypeError on an object that is none\<close>
  "json_dumps encode v = (if serializable v then Inr (encode v) else Inl TypeError)"

section \<open>Post and Thread\<close>

record post =
  raw :: raw_record

definition none_if :: "pyval \<Rightarrow> string \<Rightarrow> pyval option" where
  \<comment> \<open>\<open>_none_if\<close>; every none mark of the source is a string, and a Python string is
      equal to strings only\<close>
  "none_if content none_mark = (if content = PStr none_mark then None else Some content)"

definition attachment_base :: "'a post_scheme \<Rightarrow> error + pyval option" where
  "attachment_base p =
     (case subscript (raw p) ''img'' of Inl e \<Rightarrow> Inl e | Inr v \<Rightarrow> Inr (none_if v ''''))"

definition attachment_extension :: "'a post_scheme \<Rightarrow> error + pyval option" where
  "attachment_extension p =
     (case subscript (raw p) ''ext'' of Inl e \<Rightarrow> Inl e | Inr v \<Rightarrow> Inr (none_if v ''''))"

definition user_id :: "'a post_scheme \<Rightarrow> error + pyval" where
  "user_id p = subscript (raw p) ''userid''"

definition post_name :: "'a post_scheme \<Rightarrow> error + pyval option" where
  "post_name p =
     (case subscript (raw p) ''name'' of
        Inl e \<Rightarrow> Inl e
      | Inr v \<Rightarrow> Inr (none_if v anonymous_name))"

definition post_email :: "'a post_scheme \<Rightarrow> error + pyval option" where
  "post_email p =
     (case subscript (raw p) ''email'' of Inl e \<Rightarrow> Inl e | Inr v \<Rightarrow> Inr (none_if v ''''))"

definition post_title :: "'a post_scheme \<Rightarrow> error + pyval option" where
  "post_title p =
     (case subscript (raw p) ''title'' of Inl e \<Rightarrow> Inl e | Inr v \<Rightarrow> Inr (none_if v untitled))"

text \<open>
  The attribute \<open>__replies\<close> of a Thread holds \<open>None\<close>, or the lazy \<open>map\<close> object the
  constructor builds over the items of the reply collection (no \<open>Post\<close> is built before
  something iterates it), or the list a caller has assigned through the setter.
\<close>

datatype py_replies =
    NoReplies
  | LazyPosts "pyval list"
  | PostList "post list"

record thread = post +
  replies :: py_replies

definition Thread_init :: "raw_record \<Rightarrow> error + thread" where
  \<comment> \<open>\<open>Thread.__init__\<close>; \<open>map\<close> asks its argument for an iterator at once\<close>
  "Thread_init data =
     (if ''replys'' \<in> fst ` set data
      then (case subscript data ''replys'' of
              Inl e \<Rightarrow> Inl e
            | Inr v \<Rightarrow>
               (case py_iter v of
                  Inl e \<Rightarrow> Inl e
                | Inr items \<Rightarrow>
                    Inr \<lparr>raw = AList.update ''replys'' PNone data, replies = LazyPosts items\<rparr>))
      else Inr \<lparr>raw = data, replies = NoReplies\<rparr>)"

definition raw_copy :: "'a post_scheme \<Rightarrow> raw_record" where
  "raw_copy p = raw p"

definition to_json :: "(pyval \<Rightarrow> string) \<Rightarrow> thread \<Rightarrow> error + string" where
  \<comment> \<open>\<open>Thread.to_json\<close>: the entry stored under \<open>replys\<close> is the \<open>map\<close> object itself\<close>
  "to_json encode t =
     (let data = raw_copy t;
          data' = (if replies t \<noteq> NoReplies
                   then AList.update ''replys'' PMapObject data
                   else AList.delete ''replys'' data)
      in json_dumps encode (PDict data'))"

section \<open>Bandwidth usage and the request executor\<close>

text \<open>
  \<open>requestutils.py\<close> is not among the source files; \<open>BandwidthUsage\<close> and
  \<open>try_request\<close> follow the specification. The network is a state \<open>'s\<close> that
  every request transforms, so that a function which returns its state unchanged has
  sent nothing. One call of a request function gives its result or its failure
  together with the bandwidth the call used: the executor of the specification adds
  up the usage of the failed attempts too.
\<close>

record bandwidth_usage =
  sent :: nat
  received :: nat

definition no_usage :: bandwidth_usage where
  \<comment> \<open>Modelled from the spec: the counters of \<open>BandwidthUsage\<close> when an operation
      starts.\<close>
  "no_usage = \<lparr>sent = 0, received = 0\<rparr>"

definition add_usage :: "bandwidth_usage \<Rightarrow> bandwidth_usage \<Rightarrow> bandwidth_usage" where
  \<comment> \<open>Modelled from the spec: the usage of one more attempt added to a
      \<open>BandwidthUsage\<close>.\<close>
  "add_usage a b = \<lparr>sent = sent a + sent b, received = received a + received b\<rparr>"

type_synonym ('s, 'a) request_fn = "'s \<Rightarrow> ((error + 'a) \<times> bandwidth_usage) \<times> 's"

type_synonym ('s, 'a) executor =
  "('s, 'a) request_fn \<Rightarrow> string \<Rightarrow> int \<Rightarrow> 's \<Rightarrow> (error + 'a \<times> bandwidth_usage) \<times> 's"

definition retryable :: "error \<Rightarrow> bool" where
  \<comment> \<open>Modelled from the spec: transient transport or server errors and malformed
      responses are retried, every other failure is fatal.\<close>
  "retryable e = (case e of TransportError _ \<Rightarrow> True | MalformedResponse _ \<Rightarrow> True | _ \<Rightarrow> False)"

fun attempts ::
  "('s, 'a) request_fn \<Rightarrow> string \<Rightarrow> nat \<Rightarrow> nat \<Rightarrow> bandwidth_usage \<Rightarrow> error option \<Rightarrow> 's
     \<Rightarrow> (error + 'a \<times> bandwidth_usage) \<times> 's" where
  \<comment> \<open>Modelled from the spec: the attempts that are left, after \<open>made\<close> attempts that
      used \<open>usage\<close> and of which the last failed with \<open>failure\<close>. The specification does
      not say what a ceiling of zero attempts returns; here it is the exhaustion
      failure with no attempt made.\<close>
  "attempts fn description 0 made usage failure s =
     (Inl (RetryExhausted description made failure), s)"
| "attempts fn description (Suc left) made usage failure s =
     (case fn s of
        ((Inr result, used), s') \<Rightarrow> (Inr (result, add_usage usage used), s')
      | ((Inl e, used), s') \<Rightarrow>
          if retryable e
          then attempts fn description left (Suc made) (add_usage usage used) (Some e) s'
          else (Inl e, s'))"

definition try_request :: "('s, 'a) executor" where
  \<comment> \<open>Modelled from the spec: \<open>requestutils.try_request\<close>, the Resilient Request
      Executor of section 4.2.\<close>
  "try_request fn description limit s =
     attempts fn description (nat limit) 0 no_usage None s"

section \<open>Retrieval workflows\<close>

definition digit_char :: "nat \<Rightarrow> char" where
  "digit_char d = char_of (48 + d)"

function str_nat :: "nat \<Rightarrow> string" where
  "str_nat n = (if n < 10 then [digit_char n] else str_nat (n div 10) @ [digit_char (n mod 10)])"
  by pat_completeness auto
termination
  by (relation "measure id") auto

declare str_nat.simps [simp del]

definition str_int :: "int \<Rightarrow> string" where
  \<comment> \<open>the decimal text that an f-string and \<open>str\<close> give an integer\<close>
  "str_int i = (if i < 0 then CHR ''-'' # str_nat (nat (- i)) else str_nat (nat i))"

text \<open>
  \<open>BaseClient._get_json\<close> is a parameter: from the path, the options, the login flag
  and the query parameters it performs one request and gives the decoded payload or
  the failure, with the bandwidth the request used. The executor is the parameter
  \<open>execute\<close> of the two workflows, which the client instantiates with \<open>try_request\<close>.
\<close>

type_synonym 's get_json =
  "string \<Rightarrow> request_options \<Rightarrow> bool \<Rightarrow> (string \<times> int) list \<Rightarrow> ('s, pyval) request_fn"

definition thread_of_payload :: "pyval \<Rightarrow> error + thread" where
  \<comment> \<open>Modelled from the spec: the classes \<open>BoardThread\<close> and \<open>ThreadPage\<close> that the
      client imports are not in \<open>objects.py\<close>; the specification decodes a payload
      record into a Thread. A payload that is no record is outside the constructor's
      declared type and is modelled as a TypeError.\<close>
  "thread_of_payload v = (case v of PDict data \<Rightarrow> Thread_init data | _ \<Rightarrow> Inl TypeError)"

fun map_result :: "('a \<Rightarrow> error + 'b) \<Rightarrow> 'a list \<Rightarrow> error + 'b list" where
  \<comment> \<open>\<open>list(map(f, xs))\<close> for an \<open>f\<close> that may raise\<close>
  "map_result f [] = Inr []"
| "map_result f (x # xs) =
     (case f x of
        Inl e \<Rightarrow> Inl e
      | Inr y \<Rightarrow> (case map_result f xs of Inl e \<Rightarrow> Inl e | Inr ys \<Rightarrow> Inr (y # ys)))"

definition board_description :: "int \<Rightarrow> int \<Rightarrow> string" where
  \<comment> \<open>the text of the f-string that names the board request\<close>
  "board_description board_id page =
     [CHR 0xE8, CHR 0x8E, CHR 0xB7, CHR 0xE5, CHR 0x8F, CHR 0x96, CHR 0xE7, CHR 0x89,
      CHR 0x88, CHR 0xE5, CHR 0x9D, CHR 0x97, CHR '' ''] @ str_int board_id
     @ [CHR '' '', CHR 0xE7, CHR 0xAC, CHR 0xAC, CHR '' ''] @ str_int page
     @ [CHR '' '', CHR 0xE9, CHR 0xA1, CHR 0xB5]"

definition thread_description :: "int \<Rightarrow> int \<Rightarrow> string" where
  \<comment> \<open>the text of the f-string that names the thread request\<close>
  "thread_description thread_id page =
     [CHR 0xE8, CHR 0x8E, CHR 0xB7, CHR 0xE5, CHR 0x8F, CHR 0x96, CHR 0xE4, CHR 0xB8,
      CHR 0xB2, CHR '' ''] @ str_int thread_id
     @ [CHR '' '', CHR 0xE7, CHR 0xAC, CHR 0xAC, CHR '' ''] @ str_int page
     @ [CHR '' '', CHR 0xE9, CHR 0xA1, CHR 0xB5]"

definition board_request_fn ::
  "'s get_json \<Rightarrow> int \<Rightarrow> int \<Rightarrow> request_options \<Rightarrow> bool \<Rightarrow> ('s, thread list) request_fn" where
  \<comment> \<open>the local \<open>request_fn\<close> of \<open>get_board_page\<close>\<close>
  "board_request_fn get_json board_id page options needs_login s =
     (case get_json ''/Api/showf'' options needs_login [(''id'', board_id), (''page'', page)] s of
        ((Inl e, used), s') \<Rightarrow> ((Inl e, used), s')
      | ((Inr threads, used), s') \<Rightarrow>
          (((case py_iter threads of
               Inl e \<Rightarrow> Inl e
             | Inr items \<Rightarrow> map_result thread_of_payload items), used), s'))"

definition get_board_page ::
  "('s, thread list) executor \<Rightarrow> 's get_json \<Rightarrow> int \<Rightarrow> int \<Rightarrow> request_options \<Rightarrow> 's
     \<Rightarrow> (error + thread list \<times> bandwidth_usage) \<times> 's" where
  "get_board_page execute get_json board_id page options s =
     (case board_page_requires_login page options of
        Inl e \<Rightarrow> (Inl e, s)
      | Inr needs_login \<Rightarrow>
          if needs_login \<and> \<not> has_cookie options then (Inl RequiresLoginException, s)
          else execute (board_request_fn get_json board_id page options needs_login)
                 (board_description board_id page) (max_attempts options) s)"

definition thread_request_fn ::
  "'s get_json \<Rightarrow> int \<Rightarrow> int \<Rightarrow> request_options \<Rightarrow> bool \<Rightarrow> ('s, thread) request_fn" where
  \<comment> \<open>the local \<open>request_fn\<close> of \<open>get_thread_page\<close>\<close>
  "thread_request_fn get_json thread_id page options needs_login s =
     (case get_json (''/Api/thread/id/'' @ str_int thread_id) options needs_login [(''page'', page)] s of
        ((Inl e, used), s') \<Rightarrow> ((Inl e, used), s')
      | ((Inr thread_page_json, used), s') \<Rightarrow>
          if thread_page_json = PStr thread_not_exists
          then ((Inl ResourceNotExistsException, used), s')
          else ((thread_of_payload thread_page_json, used), s'))"

fun filter_items :: "pyval list \<Rightarrow> error + post list" where
  \<comment> \<open>\<open>list(filter(lambda post: post.user_id != luwei, map(Post, items)))\<close>: each item
      becomes a Post when the filter reaches it, and subscripting an item that is no
      record with a string raises TypeError\<close>
  "filter_items [] = Inr []"
| "filter_items (item # items) =
     (case item of
        PDict data \<Rightarrow>
          (case user_id \<lparr>raw = data\<rparr> of
             Inl e \<Rightarrow> Inl e
           | Inr uid \<Rightarrow>
               (case filter_items items of
                  Inl e \<Rightarrow> Inl e
                | Inr posts \<Rightarrow> Inr (if uid \<noteq> PStr luwei then \<lparr>raw = data\<rparr> # posts else posts)))
      | _ \<Rightarrow> Inl TypeError)"

fun filter_posts :: "post list \<Rightarrow> error + post list" where
  \<comment> \<open>the same filter over a list of posts\<close>
  "filter_posts [] = Inr []"
| "filter_posts (p # ps) =
     (case user_id p of
        Inl e \<Rightarrow> Inl e
      | Inr uid \<Rightarrow>
          (case filter_posts ps of
             Inl e \<Rightarrow> Inl e
           | Inr posts \<Rightarrow> Inr (if uid \<noteq> PStr luwei then p # posts else posts)))"

definition filter_replies :: "py_replies \<Rightarrow> error + post list" where
  \<comment> \<open>the filter of \<open>get_thread_page\<close> over what \<open>replies\<close> holds; \<open>None\<close> is not
      iterable\<close>
  "filter_replies rs =
     (case rs of
        NoReplies \<Rightarrow> Inl TypeError
      | LazyPosts items \<Rightarrow> filter_items items
      | PostList ps \<Rightarrow> filter_posts ps)"

definition get_thread_page ::
  "('s, thread) executor \<Rightarrow> 's get_json \<Rightarrow> int \<Rightarrow> int \<Rightarrow> request_options \<Rightarrow> bool \<Rightarrow> 's
     \<Rightarrow> (error + thread \<times> bandwidth_usage) \<times> 's" where
  "get_thread_page execute get_json thread_id page options for_analysis s =
     (case thread_page_requires_login page options of
        Inl e \<Rightarrow> (Inl e, s)
      | Inr needs_login \<Rightarrow>
          if needs_login \<and> \<not> has_cookie options then (Inl RequiresLoginException, s)
          else
            (case execute (thread_request_fn get_json thread_id page options needs_login)
                    (thread_description thread_id page) (max_attempts options) s of
               (Inl e, s') \<Rightarrow> (Inl e, s')
             | (Inr (thread_page, used), s') \<Rightarrow>
                 if for_analysis
                 then (case filter_replies (replies thread_page) of
                         Inl e \<Rightarrow> (Inl e, s')
                       | Inr posts \<Rightarrow> (Inr (thread_page\<lparr>replies := PostList posts\<rparr>, used), s'))
                 else (Inr (thread_page, used), s')))"

section \<open>Reply submission\<close>

text \<open>
  The document that BeautifulSoup parses a response into: a tree of elements, each
  with its tag name, the tokens of its \<open>class\<close> attribute and its children, and of
  text. The parser itself is a parameter of the workflow.
\<close>

datatype html =
    Text string
  | Element string "string list" "html list"

fun descendants :: "html \<Rightarrow> html list" where
  \<comment> \<open>everything below a node, in document order\<close>
  "descendants (Text s) = []"
| "descendants (Element tag classes children) =
     concat (map (\<lambda>child. child # descendants child) children)"

definition matches :: "string \<Rightarrow> string \<Rightarrow> html \<Rightarrow> bool" where
  \<comment> \<open>an element with the tag name that carries the class\<close>
  "matches tag cls node =
     (case node of Text s \<Rightarrow> False | Element name classes children \<Rightarrow> name = tag \<and> cls \<in> set classes)"

definition find_all :: "html \<Rightarrow> string \<Rightarrow> string \<Rightarrow> html list" where
  \<comment> \<open>\<open>node.find_all(tag, attrs={'class': cls})\<close>\<close>
  "find_all node tag cls = filter (matches tag cls) (descendants node)"

definition find_first :: "html \<Rightarrow> string \<Rightarrow> string \<Rightarrow> html option" where
  \<comment> \<open>\<open>node.find(tag, attrs={'class': cls})\<close>: the first match, or \<open>None\<close>\<close>
  "find_first node tag cls = (case find_all node tag cls of [] \<Rightarrow> None | x # xs \<Rightarrow> Some x)"

fun text_of :: "html \<Rightarrow> string" where
  \<comment> \<open>the property \<open>text\<close>: the text below the node, concatenated\<close>
  "text_of (Text s) = s"
| "text_of (Element tag classes children) = concat (map text_of children)"

record client =
  host :: string
  appid :: "string option"

text \<open>
  \<open>post\<close> stands for one call of \<open>session.post\<close> with \<open>raise_for_status\<close>, on
  the session that \<open>BaseClient._make_session\<close> builds from the options: from the URL
  and the form fields it gives the text of the response, or the failure of the
  transport or of the status check.
\<close>

type_synonym 's post_fn =
  "string \<Rightarrow> (string \<times> string) list \<Rightarrow> 's \<Rightarrow> (error + string) \<times> 's"

definition reply_form ::
  "client \<Rightarrow> string \<Rightarrow> int \<Rightarrow> string option \<Rightarrow> string option \<Rightarrow> string option
     \<Rightarrow> (string \<times> string) list" where
  \<comment> \<open>the form fields that \<open>reply_thread\<close> collects, in their order\<close>
  "reply_form c content to_thread_id name email title =
     (case appid c of None \<Rightarrow> [] | Some a \<Rightarrow> [(''appid'', a)])
     @ [(''content'', content),
        (''name'', case name of None \<Rightarrow> '''' | Some n \<Rightarrow> n),
        (''email'', case email of None \<Rightarrow> '''' | Some m \<Rightarrow> m),
        (''title'', case title of None \<Rightarrow> '''' | Some t \<Rightarrow> t),
        (''resto'', str_int to_thread_id)]"

definition reply_response :: "(string \<Rightarrow> html) \<Rightarrow> string \<Rightarrow> error + unit" where
  \<comment> \<open>what \<open>reply_thread\<close> makes of the body of the response\<close>
  "reply_response parse resp_body =
     (let doc = parse resp_body
      in case find_first doc ''div'' ''system-message'' of
           None \<Rightarrow> Inl (UnknownResponseException resp_body)
         | Some sys_msg_div \<Rightarrow>
             if length (find_all sys_msg_div ''p'' ''success'') \<noteq> 0 then Inr ()
             else
               (let error_divs = find_all sys_msg_div ''p'' ''error''
                in if length error_divs = 0 then Inl (UnknownResponseException resp_body)
                   else
                     (let raw_error = text_of (hd error_divs);
                          detail_divs = find_all sys_msg_div ''p'' ''detail'';
                          raw_detail =
                            (if length detail_divs \<noteq> 0
                             then (if text_of (hd detail_divs) = '''' then None
                                   else Some (text_of (hd detail_divs)))
                             else None)
                      in Inl (ReplyException raw_error raw_detail))))"

definition reply_thread ::
  "'s post_fn \<Rightarrow> (string \<Rightarrow> html) \<Rightarrow> client \<Rightarrow> string \<Rightarrow> int
     \<Rightarrow> string option \<Rightarrow> string option \<Rightarrow> string option \<Rightarrow> request_options \<Rightarrow> 's
     \<Rightarrow> (error + unit) \<times> 's" where
  "reply_thread post parse c content to_thread_id name email title options s =
     (case post (''https://'' @ host c @ ''/Home/Forum/doReplyThread.html'')
             (reply_form c content to_thread_id name email title) s of
        (Inl e, s') \<Rightarrow> (Inl e, s')
      | (Inr resp_body, s') \<Rightarrow> (reply_response parse resp_body, s'))"

section \<open>Fixtures\<close>

text \<open>Concrete inputs at which the properties below are evaluated.\<close>

definition default_options :: request_options where
  "default_options = \<lparr>login_policy = ''when_required'', has_cookie = False, max_attempts = 3,
     thread_gatekeeper_page_number = None, board_gatekeeper_page_number = None\<rparr>"

definition served :: "pyval \<Rightarrow> nat get_json" where
  \<comment> \<open>a server that answers every request with the payload; the state counts the requests\<close>
  "served payload path options needs_login params n =
     ((Inr payload, \<lparr>sent = 100, received = 2000\<rparr>), Suc n)"

definition example_post :: post where
  "example_post = \<lparr>raw = [(''id'', PInt 7), (''img'', PStr ''''), (''ext'', PStr ''.jpg''),
     (''userid'', PStr ''abc''), (''name'', PStr anonymous_name), (''email'', PStr ''''),
     (''title'', PStr ''news''), (''content'', PStr ''text'')]\<rparr>"

definition example_mail_post :: post where
  "example_mail_post = \<lparr>raw = [(''id'', PInt 8), (''email'', PStr ''sage'')]\<rparr>"

definition example_board_thread :: raw_record where
  "example_board_thread = [(''id'', PInt 1), (''userid'', PStr ''abc''),
     (''content'', PStr ''text''), (''replyCount'', PStr ''0'')]"

definition example_thread_record :: raw_record where
  "example_thread_record = [(''id'', PInt 1), (''userid'', PStr ''abc''),
     (''content'', PStr ''text''),
     (''replys'', PList [PDict [(''id'', PInt 2), (''userid'', PStr ''def'')],
                         PDict [(''id'', PInt 9999999), (''userid'', PStr luwei)],
                         PDict [(''id'', PInt 3), (''userid'', PStr ''abc'')]]),
     (''replyCount'', PStr ''2'')]"

definition thread_round_trip :: "(pyval \<Rightarrow> string) \<Rightarrow> raw_record \<Rightarrow> error + string" where
  \<comment> \<open>a Thread built from a record and serialised at once\<close>
  "thread_round_trip encode data =
     (case Thread_init data of Inl e \<Rightarrow> Inl e | Inr t \<Rightarrow> to_json encode t)"

definition records_of :: "py_replies \<Rightarrow> pyval list" where
  \<comment> \<open>the reply records behind what \<open>replies\<close> holds, in their order\<close>
  "records_of rs =
     (case rs of
        NoReplies \<Rightarrow> []
      | LazyPosts items \<Rightarrow> items
      | PostList ps \<Rightarrow> map (\<lambda>p. PDict (raw p)) ps)"

definition by_luwei :: "pyval \<Rightarrow> bool" where
  \<comment> \<open>a reply record whose author identifier is the reserved one\<close>
  "by_luwei item =
     (case item of PDict data \<Rightarrow> map_of data ''userid'' = Some (PStr luwei) | _ \<Rightarrow> False)"

definition has_userid :: "pyval \<Rightarrow> bool" where
  \<comment> \<open>a reply record that holds an author identifier\<close>
  "has_userid item =
     (case item of PDict data \<Rightarrow> map_of data ''userid'' \<noteq> None | _ \<Rightarrow> False)"

definition flaky :: "(nat, string) request_fn" where
  \<comment> \<open>a request that times out on its first two calls and succeeds from the third on;
      the state counts the calls\<close>
  "flaky n =
     (if n < 2 then ((Inl (TransportError ''timeout''), \<lparr>sent = 10, received = 0\<rparr>), Suc n)
      else ((Inr ''done'', \<lparr>sent = 10, received = 500\<rparr>), Suc n))"

definition reply_succeeded :: string where
  "reply_succeeded = [CHR 0xE5, CHR 0x9B, CHR 0x9E, CHR 0xE5, CHR 0xA4, CHR 0x8D, CHR 0xE6,
     CHR 0x88, CHR 0x90, CHR 0xE5, CHR 0x8A, CHR 0x9F]"

definition no_post_selected :: string where
  "no_post_selected = [CHR 0xE6, CHR 0xB2, CHR 0xA1, CHR 0xE6, CHR 0x9C, CHR 0x89, CHR 0xE9,
     CHR 0x80, CHR 0x89, CHR 0xE5, CHR 0xAE, CHR 0x9A, CHR 0xE5, CHR 0x9B, CHR 0x9E, CHR 0xE5,
     CHR 0xA4, CHR 0x8D, CHR 0xE7, CHR 0x9A, CHR 0x84, CHR 0xE5, CHR 0xB8, CHR 0x96, CHR 0xE5,
     CHR 0xAD, CHR 0x90]"

definition success_container :: html where
  "success_container = Element ''div'' [''system-message'']
     [Element ''h1'' [] [Text '':)''],
      Element ''p'' [''success''] [Text reply_succeeded],
      Element ''p'' [''detail''] []]"

definition error_container :: html where
  "error_container = Element ''div'' [''system-message'']
     [Element ''h1'' [] [Text '':(''],
      Element ''p'' [''error''] [Text no_post_selected],
      Element ''p'' [''detail''] []]"

definition bare_container :: html where
  "bare_container = Element ''div'' [''system-message''] [Element ''h1'' [] [Text '':|'']]"

definition example_parse :: "string \<Rightarrow> html" where
  \<comment> \<open>the documents of four response bodies, named by the body\<close>
  "example_parse body =
     Element ''[document]'' []
       [Element ''html'' []
          [Element ''body'' []
             (if body = ''success'' then [success_container]
              else if body = ''error'' then [error_container]
              else if body = ''bare'' then [bare_container]
              else [Element ''p'' [''error''] [Text body]])]]"

definition example_client :: client where
  "example_client = \<lparr>host = ''example.org'', appid = None\<rparr>"

definition flaky_post :: "nat post_fn" where
  \<comment> \<open>a server that times out on the first call and accepts the reply from the second
      on; the state counts the calls\<close>
  "flaky_post url form n =
     (if n < 1 then (Inl (TransportError ''timeout''), Suc n) else (Inr ''success'', Suc n))"

definition flaky_reply :: "(nat, unit) request_fn" where
  \<comment> \<open>the same call and its reading of the response, as a request of the executor\<close>
  "flaky_reply n =
     (case flaky_post ''https://example.org/Home/Forum/doReplyThread.html''
             (reply_form example_client ''text'' 1 None None None) n of
        (Inl e, n') \<Rightarrow> ((Inl e, no_usage), n')
      | (Inr resp_body, n') \<Rightarrow> ((reply_response example_parse resp_body, no_usage), n'))"

section \<open>Properties\<close>

subsection \<open>The login decision\<close>

text \<open>
  C1. The login decision is true under the policy \<open>enforce\<close>; it is "a credential is
  present or the page lies beyond the gatekeeper page" under \<open>when_has_cookie\<close>; and it
  is "the page lies beyond the gatekeeper page" under \<open>always_no\<close> and under
  \<open>when_required\<close>, which therefore ignore the credential and agree with each other.
\<close>

theorem page_requires_login_table:
  "page_requires_login page gk (options\<lparr>login_policy := ''enforce'', has_cookie := c\<rparr>)
     = Inr True
   \<and> page_requires_login page gk (options\<lparr>login_policy := ''when_has_cookie'', has_cookie := c\<rparr>)
     = Inr (c \<or> page > gk)
   \<and> page_requires_login page gk (options\<lparr>login_policy := ''always_no'', has_cookie := c\<rparr>)
     = Inr (page > gk)
   \<and> page_requires_login page gk (options\<lparr>login_policy := ''when_required'', has_cookie := c\<rparr>)
     = Inr (page > gk)"
  by (simp add: page_requires_login_def)

subsection \<open>Sentinel values of a Post\<close>

text \<open>
  C7. Where the record holds the field, the attachment base and the attachment
  extension are absent exactly when the raw value is the empty string, the name is
  absent exactly when it is the anonymous name, the title is absent exactly when it is
  the untitled mark; every other raw value is returned unchanged.
\<close>

theorem sentinel_mapping:
  "(subscript (raw p) ''img'' = Inr v \<longrightarrow>
      attachment_base p = Inr (if v = PStr '''' then None else Some v))
   \<and> (subscript (raw p) ''ext'' = Inr v \<longrightarrow>
      attachment_extension p = Inr (if v = PStr '''' then None else Some v))
   \<and> (subscript (raw p) ''name'' = Inr v \<longrightarrow>
      post_name p = Inr (if v = PStr anonymous_name then None else Some v))
   \<and> (subscript (raw p) ''title'' = Inr v \<longrightarrow>
      post_title p = Inr (if v = PStr untitled then None else Some v))"
  by (simp add: attachment_base_def attachment_extension_def post_name_def post_title_def
        none_if_def)

theorem sentinel_mapping_witness:
  "attachment_base example_post = Inr None
   \<and> attachment_extension example_post = Inr (Some (PStr ''.jpg''))
   \<and> post_name example_post = Inr None
   \<and> post_title example_post = Inr (Some (PStr ''news''))"
  using sentinel_mapping [of example_post "PStr ''''"]
    sentinel_mapping [of example_post "PStr ''.jpg''"]
    sentinel_mapping [of example_post "PStr anonymous_name"]
    sentinel_mapping [of example_post "PStr ''news''"]
  by (simp add: example_post_def subscript_def untitled_def)

text \<open>
  C10. Where the record holds the field \<open>email\<close>, the email is absent exactly when the
  raw value is the empty string, and every other raw value is returned unchanged.
\<close>

theorem email_sentinel:
  "subscript (raw p) ''email'' = Inr v \<Longrightarrow>
   post_email p = Inr (if v = PStr '''' then None else Some v)"
  by (simp add: post_email_def none_if_def)

theorem email_sentinel_witness:
  "post_email example_post = Inr None
   \<and> post_email example_mail_post = Inr (Some (PStr ''sage''))"
  using email_sentinel [of example_post "PStr ''''"]
    email_sentinel [of example_mail_post "PStr ''sage''"]
  by (simp add: example_post_def example_mail_post_def subscript_def)

subsection \<open>Serialising a Thread\<close>

lemma round_trip_without_replies:
  "''replys'' \<notin> fst ` set data \<Longrightarrow>
   thread_round_trip encode data = json_dumps encode (PDict data)"
  by (simp add: thread_round_trip_def Thread_init_def to_json_def raw_copy_def delete_id)

lemma update_not_serializable:
  "\<not> list_all (\<lambda>kv. serializable (snd kv)) (AList.update k PMapObject data)"
  by (induction data) auto

lemma round_trip_with_replies:
  "''replys'' \<in> fst ` set data \<Longrightarrow> \<exists>e. thread_round_trip encode data = Inl e"
  by (auto simp add: thread_round_trip_def Thread_init_def to_json_def raw_copy_def
        json_dumps_def update_not_serializable split: sum.splits)

text \<open>
  C6. A Thread built from a record that holds a reply collection cannot be serialised:
  \<open>to_json\<close> stores the \<open>map\<close> object under \<open>replys\<close>, and the encoder raises TypeError
  on it, whatever the text it would give a JSON value.
\<close>

theorem thread_round_trip_fails:
  "thread_round_trip encode example_thread_record = Inl TypeError"
  by (simp add: thread_round_trip_def example_thread_record_def Thread_init_def subscript_def
        py_iter_def to_json_def raw_copy_def json_dumps_def)

subsection \<open>Gatekeeper of the board pages\<close>

lemma gatekeeper_default: "get_board_gatekeeper_page_number default_options = 100"
  by (simp add: get_board_gatekeeper_page_number_def default_options_def get_option_value_def)

lemma decision_default: "page_requires_login 100 100 default_options = Inr False"
  by (simp add: page_requires_login_def default_options_def)

lemma max_attempts_default: "max_attempts default_options = 3"
  by (simp add: default_options_def)

lemma board_fetch_example:
  "try_request (board_request_fn (served (PList [PDict example_board_thread])) 4 100
       default_options False) (board_description 4 100) 3 0
     = (Inr ([\<lparr>raw = example_board_thread, replies = NoReplies\<rparr>],
             \<lparr>sent = 100, received = 2000\<rparr>), 1)"
  by (simp add: try_request_def numeral_3_eq_3 board_request_fn_def served_def py_iter_def
        thread_of_payload_def Thread_init_def example_board_thread_def no_usage_def
        add_usage_def)

text \<open>
  C3. A board page beyond the board's gatekeeper page fails with the Gated error,
  whatever the policy, the credential, the executor and the server, and leaves the
  network state as it was: nothing is sent. At the gatekeeper page itself the check
  does not gate: it gives the generic login decision, and unless that decision asks for
  a login without a credential the fetch goes on to the executor.
\<close>

theorem board_gate:
  "(page > get_board_gatekeeper_page_number options \<longrightarrow>
      get_board_page execute get_json board_id page options s =
        (Inl (GatekeptException ''check_if_board_page_requires_login'' None None), s))
   \<and> (page = get_board_gatekeeper_page_number options \<longrightarrow>
        board_page_requires_login page options = page_requires_login page page options
      \<and> (page_requires_login page page options = Inr needs_login
            \<and> (needs_login \<longrightarrow> has_cookie options) \<longrightarrow>
          get_board_page execute get_json board_id page options s =
            execute (board_request_fn get_json board_id page options needs_login)
              (board_description board_id page) (max_attempts options) s))"
  by (auto simp add: get_board_page_def board_page_requires_login_def Let_def)

theorem board_gate_witness:
  "get_board_page try_request (served (PList [PDict example_board_thread])) 4 101
       default_options 0
     = (Inl (GatekeptException ''check_if_board_page_requires_login'' None None), 0)
   \<and> get_board_page try_request (served (PList [PDict example_board_thread])) 4 100
       default_options 0
     = (Inr ([\<lparr>raw = example_board_thread, replies = NoReplies\<rparr>],
             \<lparr>sent = 100, received = 2000\<rparr>), 1)"
proof
  show "get_board_page try_request (served (PList [PDict example_board_thread])) 4 101
       default_options 0
     = (Inl (GatekeptException ''check_if_board_page_requires_login'' None None), 0)"
    using board_gate [where page = 101 and options = default_options
          and execute = try_request
          and get_json = "served (PList [PDict example_board_thread])" and board_id = 4
          and s = 0]
    by (simp add: gatekeeper_default)
next
  show "get_board_page try_request (served (PList [PDict example_board_thread])) 4 100
       default_options 0
     = (Inr ([\<lparr>raw = example_board_thread, replies = NoReplies\<rparr>],
             \<lparr>sent = 100, received = 2000\<rparr>), 1)"
    using board_gate [where page = 100 and options = default_options
          and execute = try_request
          and get_json = "served (PList [PDict example_board_thread])" and board_id = 4
          and s = 0 and needs_login = False]
    by (simp add: gatekeeper_default decision_default board_fetch_example
          max_attempts_default)
qed

subsection \<open>Gatekeeper of the thread pages\<close>

lemma thread_gate_never_gated:
  "thread_page_requires_login page options \<noteq> Inl (GatekeptException ctx a b)"
  by (simp add: thread_page_requires_login_def page_requires_login_def)

lemma thread_gate_valid:
  "login_policy options \<in> set [''enforce'', ''when_has_cookie'', ''always_no'', ''when_required'']
   \<Longrightarrow> \<exists>needs_login. thread_page_requires_login page options = Inr needs_login"
  by (auto simp add: thread_page_requires_login_def page_requires_login_def)

lemma get_thread_page_login_required:
  "thread_page_requires_login page options = Inr needs_login \<Longrightarrow>
   needs_login \<and> \<not> has_cookie options \<Longrightarrow>
   get_thread_page execute get_json thread_id page options for_analysis s
     = (Inl RequiresLoginException, s)"
  by (simp add: get_thread_page_def)

lemma get_thread_page_state:
  "thread_page_requires_login page options = Inr needs_login \<Longrightarrow>
   \<not> (needs_login \<and> \<not> has_cookie options) \<Longrightarrow>
   snd (get_thread_page execute get_json thread_id page options for_analysis s)
     = snd (execute (thread_request_fn get_json thread_id page options needs_login)
             (thread_description thread_id page) (max_attempts options) s)"
  by (auto simp add: get_thread_page_def split: prod.splits sum.splits)

lemma get_thread_page_plain:
  "thread_page_requires_login page options = Inr needs_login \<Longrightarrow>
   \<not> (needs_login \<and> \<not> has_cookie options) \<Longrightarrow>
   get_thread_page execute get_json thread_id page options False s
     = execute (thread_request_fn get_json thread_id page options needs_login)
         (thread_description thread_id page) (max_attempts options) s"
  by (auto simp add: get_thread_page_def split: prod.splits sum.splits)

lemma filter_items_error: "filter_items items = Inl e \<Longrightarrow> e = TypeError \<or> e = KeyError ''userid''"
  by (induction items) (auto simp add: user_id_def subscript_def split: pyval.splits sum.splits option.splits)

lemma filter_posts_error: "filter_posts ps = Inl e \<Longrightarrow> e = KeyError ''userid''"
  by (induction ps) (auto simp add: user_id_def subscript_def split: sum.splits option.splits)

lemma filter_replies_not_gated:
  "filter_replies rs \<noteq> Inl (GatekeptException ctx a b)"
  using filter_items_error filter_posts_error
  by (fastforce simp add: filter_replies_def split: py_replies.splits)

lemma get_thread_page_gated:
  assumes "fst (get_thread_page execute get_json thread_id page options for_analysis s)
     = Inl (GatekeptException ctx a b)"
  shows "\<exists>needs_login.
     fst (execute (thread_request_fn get_json thread_id page options needs_login)
            (thread_description thread_id page) (max_attempts options) s)
       = Inl (GatekeptException ctx a b)"
proof (cases "thread_page_requires_login page options")
  case (Inl e)
  with assms have "e = GatekeptException ctx a b"
    by (simp add: get_thread_page_def)
  with Inl show ?thesis
    by (simp add: thread_gate_never_gated)
next
  case (Inr needs_login)
  let ?r = "execute (thread_request_fn get_json thread_id page options needs_login)
              (thread_description thread_id page) (max_attempts options) s"
  from assms Inr have "fst ?r = Inl (GatekeptException ctx a b)"
    by (cases ?r)
       (auto simp add: get_thread_page_def filter_replies_not_gated
             split: sum.splits if_splits)
  then show ?thesis ..
qed

text \<open>
  C4. The check of a thread page never gives the Gated error, at any page, and a thread
  fetch ends with that error only if the executor does. Under each of the four
  policies the check gives a decision; when it asks for a login and no credential is
  present the fetch fails with Login Required and leaves the network state as it was;
  otherwise the fetch goes on to the executor, and no other failure precedes it.
\<close>

theorem thread_gate:
  "(\<forall>ctx a b. thread_page_requires_login page options \<noteq> Inl (GatekeptException ctx a b))
   \<and> (\<forall>ctx a b.
        fst (get_thread_page execute get_json thread_id page options for_analysis s)
          = Inl (GatekeptException ctx a b) \<longrightarrow>
        (\<exists>needs_login.
           fst (execute (thread_request_fn get_json thread_id page options needs_login)
                  (thread_description thread_id page) (max_attempts options) s)
             = Inl (GatekeptException ctx a b)))
   \<and> (login_policy options \<in> set [''enforce'', ''when_has_cookie'', ''always_no'', ''when_required''] \<longrightarrow>
        (\<exists>needs_login.
           thread_page_requires_login page options = Inr needs_login
         \<and> (needs_login \<and> \<not> has_cookie options \<longrightarrow>
              get_thread_page execute get_json thread_id page options for_analysis s
                = (Inl RequiresLoginException, s))
         \<and> (\<not> (needs_login \<and> \<not> has_cookie options) \<longrightarrow>
              snd (get_thread_page execute get_json thread_id page options for_analysis s)
                = snd (execute (thread_request_fn get_json thread_id page options needs_login)
                        (thread_description thread_id page) (max_attempts options) s)
            \<and> get_thread_page execute get_json thread_id page options False s
                = execute (thread_request_fn get_json thread_id page options needs_login)
                    (thread_description thread_id page) (max_attempts options) s)))"
proof (intro conjI allI impI)
  fix ctx a b
  show "thread_page_requires_login page options \<noteq> Inl (GatekeptException ctx a b)"
    by (rule thread_gate_never_gated)
next
  fix ctx a b
  assume "fst (get_thread_page execute get_json thread_id page options for_analysis s)
            = Inl (GatekeptException ctx a b)"
  then show "\<exists>needs_login.
      fst (execute (thread_request_fn get_json thread_id page options needs_login)
             (thread_description thread_id page) (max_attempts options) s)
        = Inl (GatekeptException ctx a b)"
    by (rule get_thread_page_gated)
next
  assume "login_policy options
            \<in> set [''enforce'', ''when_has_cookie'', ''always_no'', ''when_required'']"
  then obtain needs_login where
    gate: "thread_page_requires_login page options = Inr needs_login"
    using thread_gate_valid by blast
  show "\<exists>needs_login.
      thread_page_requires_login page options = Inr needs_login
    \<and> (needs_login \<and> \<not> has_cookie options \<longrightarrow>
         get_thread_page execute get_json thread_id page options for_analysis s
           = (Inl RequiresLoginException, s))
    \<and> (\<not> (needs_login \<and> \<not> has_cookie options) \<longrightarrow>
         snd (get_thread_page execute get_json thread_id page options for_analysis s)
           = snd (execute (thread_request_fn get_json thread_id page options needs_login)
                   (thread_description thread_id page) (max_attempts options) s)
       \<and> get_thread_page execute get_json thread_id page options False s
           = execute (thread_request_fn get_json thread_id page options needs_login)
               (thread_description thread_id page) (max_attempts options) s)"
  proof (intro exI [of _ needs_login] conjI impI)
    show "thread_page_requires_login page options = Inr needs_login"
      by (rule gate)
  next
    assume "needs_login \<and> \<not> has_cookie options"
    with gate show "get_thread_page execute get_json thread_id page options for_analysis s
           = (Inl RequiresLoginException, s)"
      by (rule get_thread_page_login_required)
  next
    assume "\<not> (needs_login \<and> \<not> has_cookie options)"
    with gate show "snd (get_thread_page execute get_json thread_id page options for_analysis s)
           = snd (execute (thread_request_fn get_json thread_id page options needs_login)
                   (thread_description thread_id page) (max_attempts options) s)"
      by (rule get_thread_page_state)
  next
    assume "\<not> (needs_login \<and> \<not> has_cookie options)"
    with gate show "get_thread_page execute get_json thread_id page options False s
           = execute (thread_request_fn get_json thread_id page options needs_login)
               (thread_description thread_id page) (max_attempts options) s"
      by (rule get_thread_page_plain)
  qed
qed


lemma thread_fetch_example:
  "try_request (thread_request_fn (served (PDict example_thread_record)) 1 page
       options needs_login) description 3 0
     = (Inr (\<lparr>raw = AList.update ''replys'' PNone example_thread_record,
               replies = LazyPosts
                 [PDict [(''id'', PInt 2), (''userid'', PStr ''def'')],
                  PDict [(''id'', PInt 9999999), (''userid'', PStr luwei)],
                  PDict [(''id'', PInt 3), (''userid'', PStr ''abc'')]]\<rparr>,
             \<lparr>sent = 100, received = 2000\<rparr>), 1)"
  by (simp add: try_request_def numeral_3_eq_3 thread_request_fn_def served_def py_iter_def
        thread_of_payload_def Thread_init_def example_thread_record_def no_usage_def
        add_usage_def subscript_def)

theorem thread_gate_witness:
  "get_thread_page try_request (served (PDict example_thread_record)) 1 101
       default_options False 0 = (Inl RequiresLoginException, 0)
   \<and> snd (get_thread_page try_request (served (PDict example_thread_record)) 1 101
       (default_options\<lparr>has_cookie := True\<rparr>) False 0) = 1"
proof
  have "thread_page_requires_login 101 default_options = Inr True"
    by (simp add: thread_page_requires_login_def page_requires_login_def default_options_def
          get_thread_gatekeeper_page_number_def get_option_value_def)
  then show "get_thread_page try_request (served (PDict example_thread_record)) 1 101
       default_options False 0 = (Inl RequiresLoginException, 0)"
    using thread_gate [where page = 101 and options = default_options
          and execute = try_request and get_json = "served (PDict example_thread_record)"
          and thread_id = 1 and for_analysis = False and s = 0]
    by (auto simp add: default_options_def)
next
  have "thread_page_requires_login 101 (default_options\<lparr>has_cookie := True\<rparr>) = Inr True"
    by (simp add: thread_page_requires_login_def page_requires_login_def default_options_def
          get_thread_gatekeeper_page_number_def get_option_value_def)
  then show "snd (get_thread_page try_request (served (PDict example_thread_record)) 1 101
       (default_options\<lparr>has_cookie := True\<rparr>) False 0) = 1"
    using thread_gate [where page = 101 and options = "default_options\<lparr>has_cookie := True\<rparr>"
          and execute = try_request and get_json = "served (PDict example_thread_record)"
          and thread_id = 1 and for_analysis = False and s = 0]
    by (auto simp add: default_options_def thread_fetch_example)
qed

subsection \<open>Thread pages for analysis\<close>

lemma filter_items_sound:
  "filter_items items = Inr posts \<Longrightarrow>
   map (\<lambda>p. PDict (raw p)) posts = filter (\<lambda>item. \<not> by_luwei item) items"
proof (induction items arbitrary: posts)
  case Nil
  then show ?case by simp
next
  case (Cons item items)
  then show ?case
    by (auto simp add: by_luwei_def user_id_def subscript_def
          split: pyval.splits sum.splits option.splits if_splits)
qed

lemma filter_posts_sound:
  "filter_posts ps = Inr posts \<Longrightarrow>
   map (\<lambda>p. PDict (raw p)) posts
     = filter (\<lambda>item. \<not> by_luwei item) (map (\<lambda>p. PDict (raw p)) ps)"
proof (induction ps arbitrary: posts)
  case Nil
  then show ?case by simp
next
  case (Cons p ps)
  then show ?case
    by (auto simp add: by_luwei_def user_id_def subscript_def
          split: sum.splits option.splits if_splits)
qed

lemma filter_replies_sound:
  "filter_replies rs = Inr posts \<Longrightarrow>
   map (\<lambda>p. PDict (raw p)) posts = filter (\<lambda>item. \<not> by_luwei item) (records_of rs)"
  by (cases rs) (simp_all add: filter_replies_def records_of_def filter_items_sound
        filter_posts_sound)

lemma filter_items_total:
  "list_all has_userid items \<Longrightarrow> \<exists>posts. filter_items items = Inr posts"
proof (induction items)
  case Nil
  then show ?case by simp
next
  case (Cons item items)
  then obtain posts where rest: "filter_items items = Inr posts"
    by auto
  from Cons.prems obtain data v where
    item: "item = PDict data" and uid: "map_of data ''userid'' = Some v"
    by (auto simp add: has_userid_def split: pyval.splits)
  show ?case
    by (simp add: item uid rest user_id_def subscript_def)
qed

lemma filter_posts_total:
  "list_all has_userid (map (\<lambda>p. PDict (raw p)) ps) \<Longrightarrow> \<exists>posts. filter_posts ps = Inr posts"
proof (induction ps)
  case Nil
  then show ?case by simp
next
  case (Cons p ps)
  then obtain posts where rest: "filter_posts ps = Inr posts"
    by auto
  from Cons.prems obtain v where uid: "map_of (raw p) ''userid'' = Some v"
    by (auto simp add: has_userid_def)
  show ?case
    by (simp add: uid rest user_id_def subscript_def)
qed

lemma filter_replies_total:
  "rs \<noteq> NoReplies \<Longrightarrow> list_all has_userid (records_of rs) \<Longrightarrow>
   \<exists>posts. filter_replies rs = Inr posts"
  by (cases rs) (simp_all add: filter_replies_def records_of_def filter_items_total
        filter_posts_total)

lemma analysis_after_plain:
  assumes "get_thread_page execute get_json thread_id page options False s
             = (Inr (fetched, used), s')"
  shows "get_thread_page execute get_json thread_id page options True s
           = (case filter_replies (replies fetched) of
                Inl e \<Rightarrow> (Inl e, s')
              | Inr posts \<Rightarrow> (Inr (fetched\<lparr>replies := PostList posts\<rparr>, used), s'))"
proof (cases "thread_page_requires_login page options")
  case (Inl e)
  with assms show ?thesis
    by (simp add: get_thread_page_def)
next
  case (Inr needs_login)
  let ?r = "execute (thread_request_fn get_json thread_id page options needs_login)
              (thread_description thread_id page) (max_attempts options) s"
  from assms Inr have go: "\<not> (needs_login \<and> \<not> has_cookie options)"
    by (auto simp add: get_thread_page_def split: if_splits)
  from assms Inr go have "?r = (Inr (fetched, used), s')"
    by (cases ?r) (auto simp add: get_thread_page_def split: sum.splits if_splits)
  with Inr go show ?thesis
    by (auto simp add: get_thread_page_def)
qed

lemma plain_before_analysis:
  assumes "get_thread_page execute get_json thread_id page options True s
             = (Inr (thread_page, used), s')"
  shows "\<exists>fetched posts.
           get_thread_page execute get_json thread_id page options False s
             = (Inr (fetched, used), s')
         \<and> thread_page = fetched\<lparr>replies := PostList posts\<rparr>
         \<and> map (\<lambda>p. PDict (raw p)) posts
             = filter (\<lambda>item. \<not> by_luwei item) (records_of (replies fetched))"
proof (cases "thread_page_requires_login page options")
  case (Inl e)
  with assms show ?thesis
    by (simp add: get_thread_page_def)
next
  case (Inr needs_login)
  let ?r = "execute (thread_request_fn get_json thread_id page options needs_login)
              (thread_description thread_id page) (max_attempts options) s"
  from assms Inr have go: "\<not> (needs_login \<and> \<not> has_cookie options)"
    by (auto simp add: get_thread_page_def split: if_splits)
  from assms Inr go obtain fetched posts where
    r: "?r = (Inr (fetched, used), s')" and
    f: "filter_replies (replies fetched) = Inr posts" and
    t: "thread_page = fetched\<lparr>replies := PostList posts\<rparr>"
    by (cases ?r) (auto simp add: get_thread_page_def split: sum.splits if_splits)
  from Inr go r have "get_thread_page execute get_json thread_id page options False s
             = (Inr (fetched, used), s')"
    by (auto simp add: get_thread_page_def)
  moreover from f have "map (\<lambda>p. PDict (raw p)) posts
             = filter (\<lambda>item. \<not> by_luwei item) (records_of (replies fetched))"
    by (rule filter_replies_sound)
  ultimately show ?thesis using t by blast
qed

text \<open>
  C8. Let the fetch of a thread page without the analysis flag return a thread that
  holds replies, each reply record with an author identifier. Then the same fetch
  for analysis returns, with the same bandwidth and network state, that thread with
  its replies replaced by a list of posts, and the records of these posts are exactly
  the reply records whose author identifier is not the reserved one, in their order.
  Conversely, every thread that a fetch for analysis returns arises in this way from
  the thread that the fetch without the flag returns.
\<close>

theorem analysis_filters_replies:
  "(get_thread_page execute get_json thread_id page options False s
        = (Inr (fetched, used), s')
      \<and> replies fetched \<noteq> NoReplies
      \<and> list_all has_userid (records_of (replies fetched)) \<longrightarrow>
      (\<exists>posts.
          get_thread_page execute get_json thread_id page options True s
            = (Inr (fetched\<lparr>replies := PostList posts\<rparr>, used), s')
        \<and> map (\<lambda>p. PDict (raw p)) posts
            = filter (\<lambda>item. \<not> by_luwei item) (records_of (replies fetched))))
   \<and> (get_thread_page execute get_json thread_id page options True s
        = (Inr (thread_page, used), s') \<longrightarrow>
      (\<exists>plain posts.
          get_thread_page execute get_json thread_id page options False s
            = (Inr (plain, used), s')
        \<and> thread_page = plain\<lparr>replies := PostList posts\<rparr>
        \<and> map (\<lambda>p. PDict (raw p)) posts
            = filter (\<lambda>item. \<not> by_luwei item) (records_of (replies plain))))"
proof (intro conjI impI)
  assume a: "get_thread_page execute get_json thread_id page options False s
        = (Inr (fetched, used), s')
      \<and> replies fetched \<noteq> NoReplies
      \<and> list_all has_userid (records_of (replies fetched))"
  then obtain posts where f: "filter_replies (replies fetched) = Inr posts"
    using filter_replies_total by blast
  from a have "get_thread_page execute get_json thread_id page options True s
            = (Inr (fetched\<lparr>replies := PostList posts\<rparr>, used), s')"
    by (simp add: analysis_after_plain f)
  moreover from f have "map (\<lambda>p. PDict (raw p)) posts
            = filter (\<lambda>item. \<not> by_luwei item) (records_of (replies fetched))"
    by (rule filter_replies_sound)
  ultimately show "\<exists>posts.
          get_thread_page execute get_json thread_id page options True s
            = (Inr (fetched\<lparr>replies := PostList posts\<rparr>, used), s')
        \<and> map (\<lambda>p. PDict (raw p)) posts
            = filter (\<lambda>item. \<not> by_luwei item) (records_of (replies fetched))"
    by blast
next
  assume "get_thread_page execute get_json thread_id page options True s
        = (Inr (thread_page, used), s')"
  then show "\<exists>plain posts.
          get_thread_page execute get_json thread_id page options False s
            = (Inr (plain, used), s')
        \<and> thread_page = plain\<lparr>replies := PostList posts\<rparr>
        \<and> map (\<lambda>p. PDict (raw p)) posts
            = filter (\<lambda>item. \<not> by_luwei item) (records_of (replies plain))"
    by (rule plain_before_analysis)
qed

lemma luwei_neq: "luwei \<noteq> ''def''" "luwei \<noteq> ''abc''" "''def'' \<noteq> luwei" "''abc'' \<noteq> luwei"
  by (simp_all add: luwei_def)

lemma plain_example:
  "get_thread_page try_request (served (PDict example_thread_record)) 1 1 default_options
       False 0
     = (Inr (\<lparr>raw = AList.update ''replys'' PNone example_thread_record,
               replies = LazyPosts
                 [PDict [(''id'', PInt 2), (''userid'', PStr ''def'')],
                  PDict [(''id'', PInt 9999999), (''userid'', PStr luwei)],
                  PDict [(''id'', PInt 3), (''userid'', PStr ''abc'')]]\<rparr>,
             \<lparr>sent = 100, received = 2000\<rparr>), 1)"
  by (simp add: get_thread_page_def thread_page_requires_login_def page_requires_login_def
        get_thread_gatekeeper_page_number_def get_option_value_def default_options_def
        thread_fetch_example)

lemma posts_of_records:
  "map (\<lambda>p. PDict (raw p)) (posts :: post list) = map PDict rs \<Longrightarrow>
   posts = map (\<lambda>r. \<lparr>raw = r\<rparr>) rs"
proof (induction posts arbitrary: rs)
  case Nil
  then show ?case by simp
next
  case (Cons p posts)
  then show ?case
    by (cases rs) auto
qed

theorem analysis_filters_replies_witness:
  "get_thread_page try_request (served (PDict example_thread_record)) 1 1 default_options
       True 0
     = (Inr (\<lparr>raw = AList.update ''replys'' PNone example_thread_record,
               replies = PostList
                 [\<lparr>raw = [(''id'', PInt 2), (''userid'', PStr ''def'')]\<rparr>,
                  \<lparr>raw = [(''id'', PInt 3), (''userid'', PStr ''abc'')]\<rparr>]\<rparr>,
             \<lparr>sent = 100, received = 2000\<rparr>), 1)"
proof -
  let ?fetched = "\<lparr>raw = AList.update ''replys'' PNone example_thread_record,
               replies = LazyPosts
                 [PDict [(''id'', PInt 2), (''userid'', PStr ''def'')],
                  PDict [(''id'', PInt 9999999), (''userid'', PStr luwei)],
                  PDict [(''id'', PInt 3), (''userid'', PStr ''abc'')]]\<rparr>"
  have held: "replies ?fetched \<noteq> NoReplies"
    by simp
  have well: "list_all has_userid (records_of (replies ?fetched))"
    by (simp add: records_of_def has_userid_def)
  from analysis_filters_replies [where execute = try_request
      and get_json = "served (PDict example_thread_record)" and thread_id = 1 and page = 1
      and options = default_options and s = 0 and fetched = ?fetched
      and used = "\<lparr>sent = 100, received = 2000\<rparr>" and s' = 1]
    plain_example held well
  obtain posts :: "post list" where
    a: "get_thread_page try_request (served (PDict example_thread_record)) 1 1
          default_options True 0
        = (Inr (?fetched\<lparr>replies := PostList posts\<rparr>, \<lparr>sent = 100, received = 2000\<rparr>), 1)" and
    m: "map (\<lambda>p. PDict (raw p)) posts
        = filter (\<lambda>item. \<not> by_luwei item) (records_of (replies ?fetched))"
    by blast
  from m have "map (\<lambda>p. PDict (raw p)) posts
        = map PDict [[(''id'', PInt 2), (''userid'', PStr ''def'')],
                     [(''id'', PInt 3), (''userid'', PStr ''abc'')]]"
    by (simp add: records_of_def by_luwei_def luwei_neq)
  then have "posts = map (\<lambda>r. \<lparr>raw = r\<rparr>)
                       [[(''id'', PInt 2), (''userid'', PStr ''def'')],
                        [(''id'', PInt 3), (''userid'', PStr ''abc'')]]"
    by (rule posts_of_records)
  with a show ?thesis
    by simp
qed

subsection \<open>The request executor\<close>

lemma add_no_usage: "add_usage no_usage u = u"
  by (simp add: add_usage_def no_usage_def)

text \<open>
  C5. For a request that fails with retryable failures on its first two calls and
  succeeds on the third: with a ceiling of three attempts the executor returns the
  result of the third call with the bandwidth of all three calls added up, in the
  state after the third call; with a ceiling of two attempts it fails with the
  exhaustion failure, which names the operation, the two attempts and the last
  failure, in the state after the second call.
\<close>

theorem executor_retries:
  assumes first: "fn s0 = ((Inl e1, u1), s1)" "retryable e1"
      and second: "fn s1 = ((Inl e2, u2), s2)" "retryable e2"
      and third: "fn s2 = ((Inr result, u3), s3)"
  shows "try_request fn description 3 s0
           = (Inr (result, \<lparr>sent = sent u1 + sent u2 + sent u3,
                            received = received u1 + received u2 + received u3\<rparr>), s3)
       \<and> try_request fn description 2 s0
           = (Inl (RetryExhausted description 2 (Some e2)), s2)"
proof
  have "attempts fn description (Suc (Suc (Suc 0))) 0 no_usage None s0
          = attempts fn description (Suc (Suc 0)) (Suc 0) u1 (Some e1) s1"
    using first by (simp add: add_no_usage)
  also have "\<dots> = attempts fn description (Suc 0) (Suc (Suc 0)) (add_usage u1 u2) (Some e2) s2"
    using second by simp
  also have "\<dots> = (Inr (result, add_usage (add_usage u1 u2) u3), s3)"
    using third by simp
  finally show "try_request fn description 3 s0
           = (Inr (result, \<lparr>sent = sent u1 + sent u2 + sent u3,
                            received = received u1 + received u2 + received u3\<rparr>), s3)"
    by (simp add: try_request_def numeral_3_eq_3 add_usage_def)
next
  have "attempts fn description (Suc (Suc 0)) 0 no_usage None s0
          = attempts fn description (Suc 0) (Suc 0) u1 (Some e1) s1"
    using first by (simp add: add_no_usage)
  also have "\<dots> = attempts fn description 0 (Suc (Suc 0)) (add_usage u1 u2) (Some e2) s2"
    using second by simp
  also have "\<dots> = (Inl (RetryExhausted description 2 (Some e2)), s2)"
    by (simp add: numeral_2_eq_2)
  finally show "try_request fn description 2 s0
           = (Inl (RetryExhausted description 2 (Some e2)), s2)"
    by (simp add: try_request_def numeral_2_eq_2)
qed

theorem executor_retries_witness:
  "try_request flaky ''fetch'' 3 0 = (Inr (''done'', \<lparr>sent = 30, received = 500\<rparr>), 3)
   \<and> try_request flaky ''fetch'' 2 0
       = (Inl (RetryExhausted ''fetch'' 2 (Some (TransportError ''timeout''))), 2)"
  using executor_retries [of flaky 0 "TransportError ''timeout''"
      "\<lparr>sent = 10, received = 0\<rparr>" 1 "TransportError ''timeout''"
      "\<lparr>sent = 10, received = 0\<rparr>" 2 "''done''" "\<lparr>sent = 10, received = 500\<rparr>" 3 "''fetch''"]
  by (simp add: flaky_def retryable_def)

subsection \<open>Reading the response to a reply\<close>

lemma example_find:
  "find_first (example_parse ''success'') ''div'' ''system-message'' = Some success_container"
  "find_first (example_parse ''error'') ''div'' ''system-message'' = Some error_container"
  "find_first (example_parse ''bare'') ''div'' ''system-message'' = Some bare_container"
  "find_first (example_parse ''<html>'') ''div'' ''system-message'' = None"
  by (simp_all add: find_first_def find_all_def matches_def example_parse_def
        success_container_def error_container_def bare_container_def)

lemma example_markers:
  "find_all success_container ''p'' ''success''
     = [Element ''p'' [''success''] [Text reply_succeeded]]"
  "find_all error_container ''p'' ''success'' = []"
  "find_all error_container ''p'' ''error''
     = [Element ''p'' [''error''] [Text no_post_selected]]"
  "find_all error_container ''p'' ''detail'' = [Element ''p'' [''detail''] []]"
  "find_all bare_container ''p'' ''success'' = []"
  "find_all bare_container ''p'' ''error'' = []"
  by (simp_all add: find_all_def matches_def success_container_def error_container_def
        bare_container_def)

text \<open>
  C2. Without a system-message container in the parsed document the reply fails with
  Unknown Response, which carries the body. With a container: a success marker in it
  makes the reply succeed; failing that, an error marker makes it fail with Reply
  Rejected, which carries the text of the first error marker and the text of the first
  detail marker, absent when there is none or when its text is empty; with neither
  marker it fails with Unknown Response.
\<close>

theorem reply_response_classifier:
  "(find_first (parse resp_body) ''div'' ''system-message'' = None \<longrightarrow>
      reply_response parse resp_body = Inl (UnknownResponseException resp_body))
   \<and> (find_first (parse resp_body) ''div'' ''system-message'' = Some container \<longrightarrow>
        (find_all container ''p'' ''success'' \<noteq> [] \<longrightarrow>
           reply_response parse resp_body = Inr ())
      \<and> (find_all container ''p'' ''success'' = []
           \<and> find_all container ''p'' ''error'' = err # errs \<longrightarrow>
           reply_response parse resp_body =
             Inl (ReplyException (text_of err)
                    (case find_all container ''p'' ''detail'' of
                       [] \<Rightarrow> None
                     | detail # details \<Rightarrow>
                         if text_of detail = '''' then None else Some (text_of detail))))
      \<and> (find_all container ''p'' ''success'' = []
           \<and> find_all container ''p'' ''error'' = [] \<longrightarrow>
           reply_response parse resp_body = Inl (UnknownResponseException resp_body)))"
  by (simp add: reply_response_def Let_def split: list.splits)

theorem reply_response_classifier_witness:
  "reply_response example_parse ''success'' = Inr ()
   \<and> reply_response example_parse ''error'' = Inl (ReplyException no_post_selected None)
   \<and> reply_response example_parse ''bare'' = Inl (UnknownResponseException ''bare'')
   \<and> reply_response example_parse ''<html>'' = Inl (UnknownResponseException ''<html>'')"
  using reply_response_classifier [of example_parse "''success''" success_container]
    reply_response_classifier [of example_parse "''error''" error_container
      "Element ''p'' [''error''] [Text no_post_selected]" "[]"]
    reply_response_classifier [of example_parse "''bare''" bare_container]
    reply_response_classifier [of example_parse "''<html>''"]
  by (simp add: example_find example_markers)

subsection \<open>Submitting a reply\<close>

lemma reply_response_success: "reply_response example_parse ''success'' = Inr ()"
  by (simp add: reply_response_def example_find example_markers)

lemma flaky_post_calls:
  "flaky_post url form 0 = (Inl (TransportError ''timeout''), Suc 0)"
  "flaky_post url form (Suc 0) = (Inr ''success'', Suc (Suc 0))"
  by (simp_all add: flaky_post_def)

text \<open>
  C9, as stated, fails. With a ceiling of three attempts and a server that times out
  on the first call only, \<open>reply_thread\<close> ends with the timeout after one call,
  where the executor over the same call succeeds with its second attempt.
\<close>

theorem reply_thread_not_retried:
  "reply_thread flaky_post example_parse example_client ''text'' 1 None None None
       default_options 0
     = (Inl (TransportError ''timeout''), 1)
   \<and> max_attempts default_options = 3
   \<and> try_request flaky_reply ''reply'' (max_attempts default_options) 0
     = (Inr ((), no_usage), 2)"
  by (simp add: reply_thread_def flaky_post_calls max_attempts_default try_request_def
        numeral_3_eq_3 flaky_reply_def reply_response_success retryable_def add_no_usage)

text \<open>
  C9, amended. \<open>reply_thread\<close> performs its call exactly once: the network state it
  leaves is the state after that one call; a failure of the call, retryable or not, is
  the outcome; a response is read by the interpreter; and the attempt ceiling of the
  options has no effect. Its result is a success or a failure and holds no bandwidth
  usage.
\<close>

theorem reply_thread_single_call:
  "snd (reply_thread post parse c content to_thread_id name email title options s)
     = snd (post (''https://'' @ host c @ ''/Home/Forum/doReplyThread.html'')
              (reply_form c content to_thread_id name email title) s)
   \<and> (fst (post (''https://'' @ host c @ ''/Home/Forum/doReplyThread.html'')
              (reply_form c content to_thread_id name email title) s) = Inl e \<longrightarrow>
        fst (reply_thread post parse c content to_thread_id name email title options s)
          = Inl e)
   \<and> (fst (post (''https://'' @ host c @ ''/Home/Forum/doReplyThread.html'')
              (reply_form c content to_thread_id name email title) s) = Inr resp_body \<longrightarrow>
        fst (reply_thread post parse c content to_thread_id name email title options s)
          = reply_response parse resp_body)
   \<and> reply_thread post parse c content to_thread_id name email title
         (options\<lparr>max_attempts := limit\<rparr>) s
       = reply_thread post parse c content to_thread_id name email title options s"
  by (auto simp add: reply_thread_def split: prod.splits sum.splits)

theorem reply_thread_single_call_witness:
  "fst (reply_thread flaky_post example_parse example_client ''text'' 1 None None None
          (default_options\<lparr>max_attempts := 5\<rparr>) 0)
     = Inl (TransportError ''timeout'')
   \<and> snd (reply_thread flaky_post example_parse example_client ''text'' 1 None None None
          (default_options\<lparr>max_attempts := 5\<rparr>) 0) = 1
   \<and> fst (reply_thread flaky_post example_parse example_client ''text'' 1 None None None
          default_options 1) = Inr ()"
proof (intro conjI)
  show "fst (reply_thread flaky_post example_parse example_client ''text'' 1 None None None
          (default_options\<lparr>max_attempts := 5\<rparr>) 0)
     = Inl (TransportError ''timeout'')"
    using reply_thread_single_call [where post = flaky_post and parse = example_parse
        and c = example_client and content = "''text''" and to_thread_id = 1
        and name = None and email = None and title = None and options = default_options
        and s = 0 and e = "TransportError ''timeout''" and limit = 5]
    by (simp add: flaky_post_calls)
next
  show "snd (reply_thread flaky_post example_parse example_client ''text'' 1 None None None
          (default_options\<lparr>max_attempts := 5\<rparr>) 0) = 1"
    using reply_thread_single_call [where post = flaky_post and parse = example_parse
        and c = example_client and content = "''text''" and to_thread_id = 1
        and name = None and email = None and title = None and options = default_options
        and s = 0 and limit = 5]
    by (simp add: flaky_post_calls)
next
  show "fst (reply_thread flaky_post example_parse example_client ''text'' 1 None None None
          default_options 1) = Inr ()"
    using reply_thread_single_call [where post = flaky_post and parse = example_parse
        and c = example_client and content = "''text''" and to_thread_id = 1
        and name = None and email = None and title = None and options = default_options
        and s = 1 and resp_body = "''success''"]
    by (simp add: flaky_post_calls reply_response_success)
qed

end
